theory Spec2Isabelle
  imports Complex_Main "HOL-Library.Word" "HOL-Library.Multiset" "HOL-Library.Signed_Division"
begin

section \<open>Disk-space monitor: data model\<close>

text \<open>
  The disk-space monitor of \<^verbatim>\<open>src/reporting/main.go\<close> (the second program of that
  file). Go's \<^verbatim>\<open>int64\<close>, \<^verbatim>\<open>uint64\<close> and \<^verbatim>\<open>int\<close> are 64-bit words whose arithmetic
  wraps; \<^verbatim>\<open>sint\<close> reads a signed one. A \<^verbatim>\<open>float64\<close> is modelled by the real number it
  holds, so the rounding of the conversions \<^verbatim>\<open>float64(x)\<close> (exact below \<open>2^53\<close>) is
  not part of the model. A Go \<^verbatim>\<open>string\<close> is its sequence of bytes.
\<close>

type_synonym int64 = "64 word"
type_synonym uint64 = "64 word"

record PartitionMetrics =
  Path :: string
  Total :: uint64
  Used :: uint64
  Free :: uint64
  UsagePercent :: real

record DiskMetrics =
  Timestamp :: int64
  Partitions :: "PartitionMetrics list"

record MetricsStore =
  data :: "DiskMetrics list"
  maxSize :: int64

subsection \<open>Instants of package time\<close>

text \<open>
  A \<^verbatim>\<open>time.Time\<close> without a monotonic clock reading, which is what \<^verbatim>\<open>time.Unix\<close>
  returns: the seconds since January 1 of year 1 as an \<^verbatim>\<open>int64\<close> and the nanoseconds
  in the second as an \<^verbatim>\<open>int32\<close>. \<^verbatim>\<open>time.Unix(s, 0)\<close> adds the offset of the Unix
  epoch, 62135596800 seconds, to \<open>s\<close> in \<^verbatim>\<open>int64\<close> arithmetic. \<^verbatim>\<open>After\<close>, \<^verbatim>\<open>Before\<close> and
  \<^verbatim>\<open>Equal\<close> compare the seconds, then the nanoseconds.
\<close>

record Time =
  sec :: int64
  nsec :: "32 word"

definition unixToInternal :: int64 where
  "unixToInternal = 62135596800"

definition Unix :: "int64 \<Rightarrow> Time" where
  "Unix s = \<lparr>sec = s + unixToInternal, nsec = 0\<rparr>"

definition After :: "Time \<Rightarrow> Time \<Rightarrow> bool" where
  "After t u \<longleftrightarrow>
     sint (sec t) > sint (sec u) \<or> sec t = sec u \<and> sint (nsec t) > sint (nsec u)"

definition Before :: "Time \<Rightarrow> Time \<Rightarrow> bool" where
  "Before t u \<longleftrightarrow>
     sint (sec t) < sint (sec u) \<or> sec t = sec u \<and> sint (nsec t) < sint (nsec u)"

definition Equal :: "Time \<Rightarrow> Time \<Rightarrow> bool" where
  "Equal t u \<longleftrightarrow> sec t = sec u \<and> nsec t = nsec u"

subsection \<open>The series store\<close>

text \<open>
  \<^verbatim>\<open>add\<close> appends and then, when the length exceeds \<^verbatim>\<open>maxSize\<close>, reslices from index
  1 (the slice is never empty there). \<^verbatim>\<open>getRange\<close> walks the slice in order and keeps
  the snapshots that pass the test; \<^verbatim>\<open>&&\<close> binds tighter than \<^verbatim>\<open>||\<close>.
\<close>

definition add :: "MetricsStore \<Rightarrow> DiskMetrics \<Rightarrow> MetricsStore" where
  "add s metrics =
     (let d = data s @ [metrics]
      in if int (length d) > sint (maxSize s) then s\<lparr>data := drop 1 d\<rparr> else s\<lparr>data := d\<rparr>)"

definition inRange :: "Time \<Rightarrow> Time \<Rightarrow> DiskMetrics \<Rightarrow> bool" where
  "inRange fromTime toTime m =
     (let ts = Unix (Timestamp m)
      in After ts fromTime \<and> Before ts toTime \<or> Equal ts fromTime \<or> Equal ts toTime)"

definition getRange :: "MetricsStore \<Rightarrow> Time \<Rightarrow> Time \<Rightarrow> DiskMetrics list" where
  "getRange s fromTime toTime = filter (inRange fromTime toTime) (data s)"

subsection \<open>Vocabulary of the statements about the store\<close>

text \<open>
  The order of instants, the capture instant of a snapshot, and a store whose snapshots
  are in ascending order of capture.
\<close>

definition time_le :: "Time \<Rightarrow> Time \<Rightarrow> bool" where
  "time_le t u \<longleftrightarrow>
     sint (sec t) < sint (sec u) \<or> sec t = sec u \<and> sint (nsec t) \<le> sint (nsec u)"

definition capturedAt :: "DiskMetrics \<Rightarrow> Time" where
  "capturedAt m = Unix (Timestamp m)"

definition inInterval :: "Time \<Rightarrow> Time \<Rightarrow> DiskMetrics \<Rightarrow> bool" where
  "inInterval fromTime toTime m \<longleftrightarrow>
     time_le fromTime (capturedAt m) \<and> time_le (capturedAt m) toTime"

definition ascending :: "DiskMetrics list \<Rightarrow> bool" where
  "ascending ms = sorted_wrt (\<lambda>a b. time_le (capturedAt a) (capturedAt b)) ms"

definition snap :: "int64 \<Rightarrow> DiskMetrics" where
  "snap t = \<lparr>Timestamp = t, Partitions = []\<rparr>"

section \<open>The relative-time parser\<close>

subsection \<open>Library routines the parser calls\<close>

text \<open>
  \<^verbatim>\<open>strings.TrimSpace\<close> removes the leading and the trailing white space that
  \<^verbatim>\<open>unicode.IsSpace\<close> recognises: tab, line feed, vertical tab, form feed, carriage
  return, space, U+0085, U+00A0, U+1680, U+2000 to U+200A, U+2028, U+2029, U+202F, U+205F
  and U+3000. On the bytes of a string these are the UTF-8 encodings listed in
  \<open>spaceRunes\<close>; a byte sequence that is not a valid encoding decodes to the replacement
  character, which is not white space.
\<close>

definition spaceRunes :: "string list" where
  "spaceRunes =
     [[CHR 0x09], [CHR 0x0A], [CHR 0x0B], [CHR 0x0C], [CHR 0x0D], [CHR 0x20],
      [CHR 0xC2, CHR 0x85], [CHR 0xC2, CHR 0xA0], [CHR 0xE1, CHR 0x9A, CHR 0x80],
      [CHR 0xE2, CHR 0x80, CHR 0x80], [CHR 0xE2, CHR 0x80, CHR 0x81],
      [CHR 0xE2, CHR 0x80, CHR 0x82], [CHR 0xE2, CHR 0x80, CHR 0x83],
      [CHR 0xE2, CHR 0x80, CHR 0x84], [CHR 0xE2, CHR 0x80, CHR 0x85],
      [CHR 0xE2, CHR 0x80, CHR 0x86], [CHR 0xE2, CHR 0x80, CHR 0x87],
      [CHR 0xE2, CHR 0x80, CHR 0x88], [CHR 0xE2, CHR 0x80, CHR 0x89],
      [CHR 0xE2, CHR 0x80, CHR 0x8A], [CHR 0xE2, CHR 0x80, CHR 0xA8],
      [CHR 0xE2, CHR 0x80, CHR 0xA9], [CHR 0xE2, CHR 0x80, CHR 0xAF],
      [CHR 0xE2, CHR 0x81, CHR 0x9F], [CHR 0xE3, CHR 0x80, CHR 0x80]]"

text \<open>The number of bytes of the white-space rune that starts the string, 0 if none does.\<close>

definition spaceWidth :: "string list \<Rightarrow> string \<Rightarrow> nat" where
  "spaceWidth runes s =
     (case find (\<lambda>p. p \<noteq> [] \<and> take (length p) s = p) runes of
        None \<Rightarrow> 0
      | Some p \<Rightarrow> length p)"

fun trimLeft :: "string list \<Rightarrow> nat \<Rightarrow> string \<Rightarrow> string" where
  "trimLeft runes 0 s = s"
| "trimLeft runes (Suc k) s =
     (if spaceWidth runes s = 0 then s else trimLeft runes k (drop (spaceWidth runes s) s))"

text \<open>
  The loop removes at least one byte in each round, so the length of the string bounds
  the number of rounds. The trailing side is the leading side of the reversed string,
  with each encoding reversed.
\<close>

definition TrimSpace :: "string \<Rightarrow> string" where
  "TrimSpace s =
     (let l = trimLeft spaceRunes (length s) s
      in rev (trimLeft (map rev spaceRunes) (length l) (rev l)))"

text \<open>
  \<^verbatim>\<open>strings.ToLower\<close>, exact on the strings of one byte, which is all the parser passes:
  an upper-case ASCII letter becomes the lower-case one, another ASCII byte stays, and a
  byte from 0x80 on, not valid UTF-8 by itself, becomes the replacement character U+FFFD.
\<close>

definition lowerByte :: "char \<Rightarrow> string" where
  "lowerByte c =
     (if (of_char c :: nat) \<ge> 128 then [CHR 0xEF, CHR 0xBF, CHR 0xBD]
      else if of_char (CHR ''A'') \<le> (of_char c :: nat) \<and> (of_char c :: nat) \<le> of_char (CHR ''Z'')
      then [char_of (of_char c + (32 :: nat))]
      else [c])"

definition ToLower :: "string \<Rightarrow> string" where
  "ToLower s = concat (map lowerByte s)"

text \<open>
  \<^verbatim>\<open>strconv.Atoi\<close> on a 64-bit platform: an optional sign \<^verbatim>\<open>+\<close> or \<^verbatim>\<open>-\<close>, then one or
  more decimal digits, and the value must fit \<^verbatim>\<open>int64\<close>. The caller only tests the
  error against \<^verbatim>\<open>nil\<close>, so the model returns \<open>None\<close> for every error.
  \<^verbatim>\<open>strconv.ParseInt(s, 10, 64)\<close> accepts the same strings with the same values.
\<close>

definition isDigit :: "char \<Rightarrow> bool" where
  "isDigit c \<longleftrightarrow> (48 :: nat) \<le> of_char c \<and> (of_char c :: nat) \<le> 57"

definition decimal :: "string \<Rightarrow> nat" where
  "decimal ds = foldl (\<lambda>n c. n * 10 + (of_char c - 48)) 0 ds"

definition Atoi :: "string \<Rightarrow> int64 option" where
  "Atoi s =
     (let neg = (s \<noteq> [] \<and> hd s = CHR ''-'');
          ds = (if s \<noteq> [] \<and> (hd s = CHR ''-'' \<or> hd s = CHR ''+'') then tl s else s)
      in if ds = [] \<or> \<not> list_all isDigit ds then None
         else if neg then (if decimal ds > 2 ^ 63 then None else Some (- of_nat (decimal ds)))
         else (if decimal ds \<ge> 2 ^ 63 then None else Some (of_nat (decimal ds))))"

definition ParseInt :: "string \<Rightarrow> int64 option" where
  "ParseInt s = Atoi s"

subsection \<open>Durations and \<^verbatim>\<open>parseSimpleTime\<close>\<close>

text \<open>
  A \<^verbatim>\<open>time.Duration\<close> is an \<^verbatim>\<open>int64\<close> count of nanoseconds; the products wrap.
  \<^verbatim>\<open>unit\<close> is the last byte of the trimmed string and \<^verbatim>\<open>number\<close> all that precedes it.
\<close>

type_synonym Duration = int64

definition Millisecond :: Duration where
  "Millisecond = 1000000"

definition Minute :: Duration where
  "Minute = 60 * 1000000000"

definition Hour :: Duration where
  "Hour = 60 * Minute"

datatype ParseError =
    EmptyTimeString
  | InvalidNumberFormat string
  | UnsupportedTimeUnit string

definition parseSimpleTime :: "string \<Rightarrow> ParseError + Duration" where
  "parseSimpleTime timeStr0 =
     (let timeStr = TrimSpace timeStr0
      in if timeStr = [] then Inl EmptyTimeString
         else
           let unit = drop (length timeStr - 1) timeStr;
               number = take (length timeStr - 1) timeStr
           in case Atoi number of
                None \<Rightarrow> Inl (InvalidNumberFormat number)
              | Some v \<Rightarrow>
                  if ToLower unit = ''m'' then Inr (v * Minute)
                  else if ToLower unit = ''h'' then Inr (v * Hour)
                  else if ToLower unit = ''d'' then Inr (v * 24 * Hour)
                  else Inl (UnsupportedTimeUnit unit))"

subsection \<open>Vocabulary of the statements about the parser\<close>

text \<open>
  A string of one or more decimal digits; a string \<^verbatim>\<open>strconv.Atoi\<close> accepts; the six
  bytes accepted as a unit; the nanoseconds of one unit.
\<close>

definition allDigits :: "string \<Rightarrow> bool" where
  "allDigits ds \<longleftrightarrow> ds \<noteq> [] \<and> list_all isDigit ds"

definition signedDecimal :: "string \<Rightarrow> bool" where
  "signedDecimal n \<longleftrightarrow>
     (case n of
        [] \<Rightarrow> False
      | c # ds \<Rightarrow>
          if c = CHR ''-'' then allDigits ds \<and> decimal ds \<le> 2 ^ 63
          else if c = CHR ''+'' then allDigits ds \<and> decimal ds < 2 ^ 63
          else allDigits n \<and> decimal n < 2 ^ 63)"

definition unitBytes :: "char set" where
  "unitBytes = {CHR ''m'', CHR ''h'', CHR ''d'', CHR ''M'', CHR ''H'', CHR ''D''}"

definition unitNanos :: "char \<Rightarrow> nat" where
  "unitNanos u =
     (if u = CHR ''m'' \<or> u = CHR ''M'' then 60 * 10 ^ 9
      else if u = CHR ''h'' \<or> u = CHR ''H'' then 3600 * 10 ^ 9
      else 24 * 3600 * 10 ^ 9)"

section \<open>The handlers\<close>

subsection \<open>Requests, responses and the process state\<close>

text \<open>
  \<^verbatim>\<open>r.URL.Query()\<close> enters as the map from a parameter name to its first value, and
  \<^verbatim>\<open>Get\<close> returns the empty string for a missing name. A response is an error written by
  \<^verbatim>\<open>http.Error\<close>, a JSON body with status 200, or a redirect. The redirect's URL is
  \<^verbatim>\<open>/grafana?path=%s&from=%d&to=%d\<close>; the model keeps the three values that are formatted
  into it. The global variables of the program are the fields of \<open>Globals\<close>; the two
  gauge vectors map label values to the value last set.
\<close>

type_synonym Query = "string \<rightharpoonup> string"

definition Get :: "Query \<Rightarrow> string \<Rightarrow> string" where
  "Get query key = (case query key of None \<Rightarrow> [] | Some v \<Rightarrow> v)"

datatype 'a Response =
    HttpError nat string
  | Json 'a
  | Redirect nat string int64 int64

record Globals =
  store :: MetricsStore
  diskUsage :: "string \<times> string \<rightharpoonup> real"
  diskUsagePercent :: "string \<rightharpoonup> real"

text \<open>The state at process start: an empty store for 24 hours of minute-resolution data.\<close>

definition initGlobals :: Globals where
  "initGlobals =
     \<lparr>store = \<lparr>data = [], maxSize = 60 * 24\<rparr>, diskUsage = Map.empty,
      diskUsagePercent = Map.empty\<rparr>"

text \<open>Go's integer division truncates towards zero; \<^verbatim>\<open>float64(x)\<close> of an unsigned value.\<close>

definition goDiv :: "int64 \<Rightarrow> int64 \<Rightarrow> int64" where
  "goDiv a b = word_of_int (sint a sdiv sint b)"

definition float64 :: "uint64 \<Rightarrow> real" where
  "float64 x = real (unat x)"

subsection \<open>\<^verbatim>\<open>sortDatapoints\<close>\<close>

text \<open>
  A datapoint is the two-element slice \<^verbatim>\<open>{value, timestamp}\<close>. \<^verbatim>\<open>sortDatapoints\<close> copies
  the slice and hands the copy to \<^verbatim>\<open>sort.Slice\<close> with the comparison of the timestamps.
  \<^verbatim>\<open>sort.Slice\<close> belongs to the standard library, which documents that the result is
  ordered by the comparison and that the sort is not guaranteed to be stable; it enters
  the model as the parameter \<open>sortSlice\<close>, and \<open>sliceContract\<close> is what the library
  promises of it for this comparison.
\<close>

type_synonym Datapoint = "real \<times> real"

type_synonym Sorter = "(Datapoint \<Rightarrow> Datapoint \<Rightarrow> bool) \<Rightarrow> Datapoint list \<Rightarrow> Datapoint list"

definition byTimestamp :: "Datapoint \<Rightarrow> Datapoint \<Rightarrow> bool" where
  "byTimestamp a b \<longleftrightarrow> snd a < snd b"

definition sortDatapoints :: "Sorter \<Rightarrow> Datapoint list \<Rightarrow> Datapoint list" where
  "sortDatapoints sortSlice datapoints = sortSlice byTimestamp datapoints"


subsection \<open>\<^verbatim>\<open>grafanaHandler\<close>\<close>

text \<open>
  The grouping loop of \<^verbatim>\<open>grafanaHandler\<close>: \<open>addPartition\<close> is the body of the inner
  loop, \<open>addSnapshot\<close> the body of the outer one, \<open>project\<close> the two loops from the
  empty map. Indexing a map at a missing key gives the nil slice. The timestamp is
  \<^verbatim>\<open>float64(m.Timestamp * 1000)\<close>, the product taken in \<^verbatim>\<open>int64\<close>.
\<close>

type_synonym PathMetrics = "string \<rightharpoonup> Datapoint list"

definition lookupSlice :: "PathMetrics \<Rightarrow> string \<Rightarrow> Datapoint list" where
  "lookupSlice pathMetrics key = (case pathMetrics key of None \<Rightarrow> [] | Some ps \<Rightarrow> ps)"

definition addPartition :: "string \<Rightarrow> real \<Rightarrow> PathMetrics \<Rightarrow> PartitionMetrics \<Rightarrow> PathMetrics" where
  "addPartition pathFilter timestamp pathMetrics part =
     (if pathFilter \<noteq> [] \<and> Path part \<noteq> pathFilter then pathMetrics
      else
        let usedKey = Path part @ '' - Used'';
            freeKey = Path part @ '' - Free'';
            percentKey = Path part @ '' - Usage %'';
            pm0 = (if pathMetrics usedKey = None
                   then pathMetrics(usedKey \<mapsto> [], freeKey \<mapsto> [], percentKey \<mapsto> [])
                   else pathMetrics);
            pm1 = pm0(usedKey \<mapsto> lookupSlice pm0 usedKey @ [(float64 (Used part), timestamp)]);
            pm2 = pm1(freeKey \<mapsto> lookupSlice pm1 freeKey @ [(float64 (Free part), timestamp)])
        in pm2(percentKey \<mapsto> lookupSlice pm2 percentKey @ [(UsagePercent part, timestamp)]))"

definition addSnapshot :: "string \<Rightarrow> PathMetrics \<Rightarrow> DiskMetrics \<Rightarrow> PathMetrics" where
  "addSnapshot pathFilter pathMetrics m =
     (let timestamp = real_of_int (sint (Timestamp m * 1000))
      in foldl (addPartition pathFilter timestamp) pathMetrics (Partitions m))"

definition project :: "string \<Rightarrow> DiskMetrics list \<Rightarrow> PathMetrics" where
  "project pathFilter metrics = foldl (addSnapshot pathFilter) Map.empty metrics"

text \<open>
  The response array lists the entries of the map in Go's unspecified iteration order;
  the model returns the map from a target to its sorted datapoints.
\<close>

definition grafanaHandler :: "Sorter \<Rightarrow> Globals \<Rightarrow> Query \<Rightarrow> PathMetrics Response" where
  "grafanaHandler sortSlice g query =
     (let pathFilter = Get query ''path'';
          fromStr = Get query ''from'';
          toStr = Get query ''to''
      in case ParseInt fromStr of
           None \<Rightarrow> HttpError 400 ''Invalid 'from' parameter''
         | Some fromMs \<Rightarrow>
             (case ParseInt toStr of
                None \<Rightarrow> HttpError 400 ''Invalid 'to' parameter''
              | Some toMs \<Rightarrow>
                  let fromTime = Unix (goDiv fromMs 1000);
                      toTime = Unix (goDiv toMs 1000);
                      metrics = getRange (store g) fromTime toTime;
                      pathMetrics = project pathFilter metrics
                  in Json (\<lambda>target. map_option (sortDatapoints sortSlice) (pathMetrics target))))"

subsection \<open>\<^verbatim>\<open>grafanaSimpleHandler\<close>\<close>

text \<open>
  The clock enters as \<open>now\<close>, the reading \<^verbatim>\<open>time.Now().UnixNano()\<close>. The reading
  \<^verbatim>\<open>now.Add(-duration).UnixNano()\<close> is \<open>now + (- duration)\<close> in \<^verbatim>\<open>int64\<close> arithmetic.
\<close>

definition errorText :: "ParseError \<Rightarrow> string" where
  "errorText e =
     (case e of
        EmptyTimeString \<Rightarrow> ''empty time string''
      | InvalidNumberFormat number \<Rightarrow> ''invalid number format: '' @ number
      | UnsupportedTimeUnit unit \<Rightarrow> ''unsupported time unit: '' @ unit)"

definition grafanaSimpleHandler :: "int64 \<Rightarrow> Query \<Rightarrow> unit Response" where
  "grafanaSimpleHandler now query =
     (let path = Get query ''path'';
          simpleTime = Get query ''time''
      in case parseSimpleTime simpleTime of
           Inl err \<Rightarrow> HttpError 400 (''Invalid time format: '' @ errorText err)
         | Inr duration \<Rightarrow>
             let fromNano = now + (- duration);
                 fromMs = goDiv fromNano Millisecond;
                 toMs = goDiv now Millisecond
             in Redirect 307 path fromMs toMs)"

subsection \<open>\<^verbatim>\<open>collectMetrics\<close> and \<^verbatim>\<open>metricsHandler\<close>\<close>





section \<open>Vocabulary of the statements about the handlers\<close>

text \<open>
  The three keys of a path; the partition readings that pass the filter, in the order
  of ingestion; the points one field contributes to the series of a path; the three
  series of a path in a map; and the invariant of the grouping loop that the key of the
  used bytes is created no later than the other two.
\<close>

definition seriesKeys :: "string \<Rightarrow> string set" where
  "seriesKeys path = {path @ '' - Used'', path @ '' - Free'', path @ '' - Usage %''}"

definition matching :: "string \<Rightarrow> DiskMetrics list \<Rightarrow> PartitionMetrics list" where
  "matching pathFilter ms =
     filter (\<lambda>p. pathFilter = [] \<or> Path p = pathFilter) (concat (map Partitions ms))"

definition pointsOf :: "(PartitionMetrics \<Rightarrow> real) \<Rightarrow> string \<Rightarrow> DiskMetrics list \<Rightarrow> Datapoint list" where
  "pointsOf field path ms =
     concat (map (\<lambda>m. map (\<lambda>p. (field p, real_of_int (sint (Timestamp m * 1000))))
                        (filter (\<lambda>p. Path p = path) (Partitions m))) ms)"

definition seriesOf :: "string \<Rightarrow> PathMetrics \<Rightarrow> Datapoint list \<times> Datapoint list \<times> Datapoint list" where
  "seriesOf path pm =
     (lookupSlice pm (path @ '' - Used''), lookupSlice pm (path @ '' - Free''),
      lookupSlice pm (path @ '' - Usage %''))"

definition usedFirst :: "string \<Rightarrow> PathMetrics \<Rightarrow> bool" where
  "usedFirst path pm \<longleftrightarrow>
     (pm (path @ '' - Used'') = None \<longrightarrow>
        pm (path @ '' - Free'') = None \<and> pm (path @ '' - Usage %'') = None)"

text \<open>A snapshot with one reading, and the process state that holds given snapshots.\<close>

definition reading :: "int64 \<Rightarrow> string \<Rightarrow> uint64 \<Rightarrow> DiskMetrics" where
  "reading t path used =
     \<lparr>Timestamp = t,
      Partitions = [\<lparr>Path = path, Total = 100, Used = used, Free = 100 - used,
                     UsagePercent = 0\<rparr>]\<rparr>"

definition holding :: "DiskMetrics list \<Rightarrow> Globals" where
  "holding ms = initGlobals\<lparr>store := \<lparr>data = ms, maxSize = 60 * 24\<rparr>\<rparr>"


text \<open>
  Two sorting routines within the contract of \<^verbatim>\<open>sort.Slice\<close>: insertion sort, which keeps
  the order of equal elements, and insertion sort of the reversed slice, which reverses
  it.
\<close>

fun insertBy :: "('a \<Rightarrow> 'a \<Rightarrow> bool) \<Rightarrow> 'a \<Rightarrow> 'a list \<Rightarrow> 'a list" where
  "insertBy lt x [] = [x]"
| "insertBy lt x (y # ys) = (if lt x y then x # y # ys else y # insertBy lt x ys)"

definition insertionSort :: "('a \<Rightarrow> 'a \<Rightarrow> bool) \<Rightarrow> 'a list \<Rightarrow> 'a list" where
  "insertionSort lt xs = foldl (\<lambda>acc x. insertBy lt x acc) [] xs"


section \<open>Proofs: the series store\<close>

lemma sint_inj: "sint a = sint b \<longleftrightarrow> a = b" for a b :: "'a::len word"
  using signed_word_eqI by blast

lemma time_le_trans: "time_le a b \<Longrightarrow> time_le b c \<Longrightarrow> time_le a c"
  unfolding time_le_def by (smt (verit, best) sint_inj)

lemma inInterval_inRange: "inInterval fromTime toTime m \<Longrightarrow> inRange fromTime toTime m"
  unfolding inRange_def inInterval_def capturedAt_def time_le_def After_def Before_def
      Equal_def Let_def
  by (smt (verit, best) sint_inj)

lemma inRange_inInterval:
  assumes "time_le fromTime toTime"
  shows "inRange fromTime toTime m \<longleftrightarrow> inInterval fromTime toTime m"
  using assms
  unfolding inRange_def inInterval_def capturedAt_def time_le_def After_def Before_def
      Equal_def Let_def
  by (smt (verit, best) sint_inj)

lemma maxSize_add [simp]: "maxSize (add s m) = maxSize s"
  by (simp add: add_def Let_def)

lemma data_add:
  "data (add s m) =
     (if int (length (data s)) < sint (maxSize s) then data s @ [m] else tl (data s @ [m]))"
  by (cases "data s") (auto simp: add_def Let_def)

lemma tl_drop_snoc:
  assumes "k \<le> length xs"
  shows "tl (drop k xs @ [x]) = drop (Suc k) (xs @ [x])"
proof -
  have "drop (Suc k) (xs @ [x]) = tl (drop k (xs @ [x]))"
    by (simp only: drop_Suc drop_tl)
  with assms show ?thesis by simp
qed

lemma maxSize_foldl_add [simp]: "maxSize (foldl add s ms) = maxSize s"
  by (induction ms rule: rev_induct) simp_all

lemma data_foldl_add:
  assumes "length (data s) \<le> nat (sint (maxSize s))"
  shows "data (foldl add s ms) =
           drop (length (data s @ ms) - nat (sint (maxSize s))) (data s @ ms)"
proof (induction ms rule: rev_induct)
  case Nil
  then show ?case using assms by simp
next
  case (snoc m ms)
  define c where "c = nat (sint (maxSize s))"
  define every where "every = data s @ ms"
  have lt: "int n < sint (maxSize s) \<longleftrightarrow> n < c" for n
    by (simp add: c_def zless_nat_eq_int_zless)
  have ih: "data (foldl add s ms) = drop (length every - c) every"
    using snoc by (simp add: c_def every_def)
  have "data (foldl add s (ms @ [m])) = drop (length (every @ [m]) - c) (every @ [m])"
  proof (cases "length every < c")
    case True
    then show ?thesis using ih lt[of "length every"] by (simp add: data_add)
  next
    case False
    then have len: "length (drop (length every - c) every) = c" by simp
    have "data (foldl add s (ms @ [m])) = tl (drop (length every - c) every @ [m])"
      using ih len lt[of c] by (simp add: data_add)
    also have "\<dots> = drop (Suc (length every - c)) (every @ [m])"
      by (simp add: tl_drop_snoc)
    also have "\<dots> = drop (length (every @ [m]) - c) (every @ [m])"
      using False by (simp add: Suc_diff_le)
    finally show ?thesis .
  qed
  then show ?case by (simp add: c_def every_def)
qed

text \<open>
  C1. A store that holds at most \<open>capacity\<close> snapshots (at process start it is empty)
  receives the snapshots \<open>ms\<close> one by one. When there are more of them than the
  capacity, a range query whose interval contains every capture instant returns exactly
  the last \<open>capacity\<close> of them, in the order of appending. After any sequence of appends
  the store holds at most \<open>capacity\<close> snapshots, and an append drops nothing or only the
  first (oldest) stored snapshot.
\<close>

theorem store_keeps_most_recent:
  assumes "capacity = nat (sint (maxSize s0))" and "length (data s0) \<le> capacity"
  shows "(capacity < length ms \<and> (\<forall>m \<in> set ms. inInterval fromTime toTime m) \<longrightarrow>
            getRange (foldl add s0 ms) fromTime toTime = drop (length ms - capacity) ms
            \<and> length (getRange (foldl add s0 ms) fromTime toTime) = capacity)
       \<and> length (data (foldl add s0 ms)) \<le> capacity
       \<and> data (add s m) =
           (if int (length (data s)) < sint (maxSize s) then data s @ [m] else tl (data s @ [m]))"
proof -
  have d: "data (foldl add s0 ms) = drop (length (data s0 @ ms) - capacity) (data s0 @ ms)"
    using assms by (simp add: data_foldl_add)
  have r: "data (foldl add s0 ms) = drop (length ms - capacity) ms" if "capacity < length ms"
    using that assms(2) by (simp add: d)
  have "getRange (foldl add s0 ms) fromTime toTime = drop (length ms - capacity) ms"
    if "capacity < length ms" "\<forall>m \<in> set ms. inInterval fromTime toTime m"
  proof -
    have "\<forall>m \<in> set (drop (length ms - capacity) ms). inRange fromTime toTime m"
      using that(2) by (meson in_set_dropD inInterval_inRange)
    then show ?thesis by (simp add: getRange_def r[OF that(1)])
  qed
  moreover have "length (data (foldl add s0 ms)) \<le> capacity"
    using assms(2) by (simp add: d)
  ultimately show ?thesis by (auto simp: data_add)
qed

theorem store_keeps_most_recent_witness:
  "getRange (foldl add \<lparr>data = [], maxSize = 3\<rparr> [snap 1, snap 2, snap 3, snap 4]) (Unix 0) (Unix 10)
     = [snap 2, snap 3, snap 4]
   \<and> length (data (foldl add \<lparr>data = [], maxSize = 3\<rparr> [snap 1, snap 2, snap 3, snap 4])) \<le> 3"
  using store_keeps_most_recent [of 3 "\<lparr>data = [], maxSize = 3\<rparr>"
      "[snap 1, snap 2, snap 3, snap 4]" "Unix 0" "Unix 10"]
  by (simp add: inInterval_def capturedAt_def Unix_def unixToInternal_def time_le_def snap_def)

text \<open>
  C2, as amended. For instants \<open>fromTime \<le> toTime\<close> the range query returns exactly the
  stored snapshots whose capture instant lies in the closed interval, in the order in
  which the store holds them; the result is ascending when the store is, and it is the
  empty list when no snapshot lies in the interval.
\<close>

theorem getRange_closed_interval:
  assumes "time_le fromTime toTime"
  shows "getRange s fromTime toTime = filter (inInterval fromTime toTime) (data s)
       \<and> (ascending (data s) \<longrightarrow> ascending (getRange s fromTime toTime))
       \<and> ((\<forall>m \<in> set (data s). \<not> inInterval fromTime toTime m) \<longrightarrow>
            getRange s fromTime toTime = [])"
proof -
  have "inRange fromTime toTime = inInterval fromTime toTime"
    using assms by (auto simp: inRange_inInterval)
  then show ?thesis
    by (simp add: getRange_def ascending_def sorted_wrt_filter)
qed

theorem getRange_closed_interval_witness:
  "getRange \<lparr>data = [snap 1, snap 2, snap 3, snap 7], maxSize = 1440\<rparr> (Unix 2) (Unix 3)
     = [snap 2, snap 3]
   \<and> ascending (getRange \<lparr>data = [snap 1, snap 2, snap 3, snap 7], maxSize = 1440\<rparr> (Unix 2) (Unix 3))
   \<and> getRange \<lparr>data = [snap 1, snap 2, snap 3, snap 7], maxSize = 1440\<rparr> (Unix 4) (Unix 6) = []"
  using getRange_closed_interval [of "Unix 2" "Unix 3" "\<lparr>data = [snap 1, snap 2, snap 3, snap 7], maxSize = 1440\<rparr>"]
    getRange_closed_interval [of "Unix 4" "Unix 6" "\<lparr>data = [snap 1, snap 2, snap 3, snap 7], maxSize = 1440\<rparr>"]
  by (simp add: inInterval_def capturedAt_def Unix_def unixToInternal_def time_le_def snap_def ascending_def)

text \<open>
  C2 as stated fails: the store keeps the order of appending, so a store whose
  timestamps are not ascending (5 appended before 3) is returned as it is.
\<close>

theorem getRange_order_counterexample:
  "time_le (Unix 0) (Unix 10)
   \<and> getRange \<lparr>data = [snap 5, snap 3], maxSize = 1440\<rparr> (Unix 0) (Unix 10) = [snap 5, snap 3]
   \<and> \<not> ascending (getRange \<lparr>data = [snap 5, snap 3], maxSize = 1440\<rparr> (Unix 0) (Unix 10))"
  by (simp add: getRange_def inRange_def After_def Before_def Equal_def
      capturedAt_def Unix_def unixToInternal_def time_le_def snap_def ascending_def)

text \<open>
  C7, as amended. For \<open>fromTime \<le> toTime\<close>, widening the interval to
  \<open>fromTime' \<le> fromTime\<close> and \<open>toTime \<le> toTime'\<close> keeps every returned snapshot: the
  narrow result is the part of the wide result that lies in the narrow interval.
\<close>

theorem getRange_monotonic:
  assumes "time_le fromTime toTime" and "time_le fromTime' fromTime" and "time_le toTime toTime'"
  shows "set (getRange s fromTime toTime) \<subseteq> set (getRange s fromTime' toTime')
       \<and> getRange s fromTime toTime
           = filter (inInterval fromTime toTime) (getRange s fromTime' toTime')"
proof -
  have wide: "time_le fromTime' toTime'"
    using assms by (blast intro: time_le_trans)
  have sub: "inInterval fromTime toTime m \<Longrightarrow> inInterval fromTime' toTime' m" for m
    using assms unfolding inInterval_def by (blast intro: time_le_trans)
  have "getRange s fromTime toTime = filter (inInterval fromTime toTime) (data s)"
    and "getRange s fromTime' toTime' = filter (inInterval fromTime' toTime') (data s)"
    using assms(1) wide by (simp_all add: getRange_def inRange_inInterval cong: filter_cong)
  then show ?thesis using sub by (auto intro: filter_cong)
qed

theorem getRange_monotonic_witness:
  "set (getRange \<lparr>data = [snap 1, snap 2, snap 3, snap 7], maxSize = 1440\<rparr> (Unix 2) (Unix 3))
     \<subseteq> set (getRange \<lparr>data = [snap 1, snap 2, snap 3, snap 7], maxSize = 1440\<rparr> (Unix 1) (Unix 5))
   \<and> getRange \<lparr>data = [snap 1, snap 2, snap 3, snap 7], maxSize = 1440\<rparr> (Unix 2) (Unix 3) = [snap 2, snap 3]"
  using getRange_monotonic [of "Unix 2" "Unix 3" "Unix 1" "Unix 5" "\<lparr>data = [snap 1, snap 2, snap 3, snap 7], maxSize = 1440\<rparr>"]
  by (simp add: getRange_def inRange_def After_def Before_def Equal_def inInterval_def
      capturedAt_def Unix_def unixToInternal_def time_le_def snap_def)

text \<open>
  C7 as stated fails for an inverted interval: the query from 5 to 3 returns the
  snapshot taken at 5 (it equals the lower end), and the query from 4 to 4, which has a
  smaller lower end and a larger upper end, does not.
\<close>

theorem getRange_inverted_counterexample:
  "time_le (Unix 4) (Unix 5) \<and> time_le (Unix 3) (Unix 4)
   \<and> snap 5 \<in> set (getRange \<lparr>data = [snap 5], maxSize = 1440\<rparr> (Unix 5) (Unix 3))
   \<and> snap 5 \<notin> set (getRange \<lparr>data = [snap 5], maxSize = 1440\<rparr> (Unix 4) (Unix 4))"
  by (simp add: getRange_def inRange_def After_def Before_def Equal_def
      capturedAt_def Unix_def unixToInternal_def time_le_def snap_def)

section \<open>Proofs: the relative-time parser\<close>

text \<open>
  The bound on the rounds of the trimming loop is enough: after \<open>length s\<close> rounds no
  white-space rune starts the string.
\<close>

lemma spaceWidth_Nil: "spaceWidth runes [] = 0"
proof -
  have "find (\<lambda>p. p \<noteq> [] \<and> take (length p) [] = p) runes = None"
    by (induction runes) auto
  then show ?thesis by (simp add: spaceWidth_def)
qed

lemma spaceWidth_pos: "0 < spaceWidth runes s \<Longrightarrow> length (drop (spaceWidth runes s) s) < length s"
  by (cases s) (simp_all add: spaceWidth_Nil)

lemma trimLeft_done: "length s \<le> k \<Longrightarrow> spaceWidth runes (trimLeft runes k s) = 0"
proof (induction k arbitrary: s)
  case 0
  then show ?case by (simp add: spaceWidth_Nil)
next
  case (Suc k)
  show ?case
  proof (cases "spaceWidth runes s = 0")
    case True
    then show ?thesis by simp
  next
    case False
    then have "length (drop (spaceWidth runes s) s) \<le> k"
      using spaceWidth_pos[of runes s] Suc.prems by linarith
    then show ?thesis using False Suc.IH by simp
  qed
qed

lemma TrimSpace_trimmed:
  "spaceWidth spaceRunes (trimLeft spaceRunes (length s) s) = 0
   \<and> spaceWidth (map rev spaceRunes) (rev (TrimSpace s)) = 0"
  by (simp add: TrimSpace_def Let_def trimLeft_done)

lemma Atoi_None_iff: "Atoi n = None \<longleftrightarrow> \<not> signedDecimal n"
  by (cases n) (auto simp: Atoi_def signedDecimal_def allDigits_def Let_def isDigit_def)

lemma of_char_inj_nat: "(of_char c :: nat) = of_char d \<longleftrightarrow> c = d"
  by (metis char_of_char)

lemma lowerByte_letter:
  assumes "(of_char l :: nat) = k" and "97 \<le> k" and "k \<le> 122"
  shows "lowerByte c = [l] \<longleftrightarrow> (of_char c :: nat) = k \<or> (of_char c :: nat) = k - 32"
proof -
  have up: "take_bit 8 (of_char c + (32::nat)) = of_char c + 32" if "(of_char c :: nat) \<le> 90"
    using that by (simp add: take_bit_nat_eq_self_iff)
  show ?thesis
    using assms up
    by (auto simp: lowerByte_def char_of_eq_iff of_char_inj_nat[symmetric] simp del: of_char_eq_iff)
qed

lemma ToLower_unit:
  "ToLower [c] = ''m'' \<longleftrightarrow> c = CHR ''m'' \<or> c = CHR ''M''"
  "ToLower [c] = ''h'' \<longleftrightarrow> c = CHR ''h'' \<or> c = CHR ''H''"
  "ToLower [c] = ''d'' \<longleftrightarrow> c = CHR ''d'' \<or> c = CHR ''D''"
  unfolding ToLower_def
  by (simp_all add: lowerByte_letter[where k=109] lowerByte_letter[where k=104] lowerByte_letter[where k=100] of_char_inj_nat[symmetric] del: of_char_eq_iff)

lemma parseSimpleTime_trimmed:
  "parseSimpleTime s =
     (let t = TrimSpace s
      in if t = [] then Inl EmptyTimeString
         else if \<not> signedDecimal (butlast t) then Inl (InvalidNumberFormat (butlast t))
         else if last t \<notin> unitBytes then Inl (UnsupportedTimeUnit [last t])
         else Inr (the (Atoi (butlast t)) *
                (if last t = CHR ''m'' \<or> last t = CHR ''M'' then Minute
                 else if last t = CHR ''h'' \<or> last t = CHR ''H'' then Hour
                 else 24 * Hour)))"
proof (cases "TrimSpace s = []")
  case True
  then show ?thesis by (simp add: parseSimpleTime_def)
next
  case False
  define t where "t = TrimSpace s"
  have t: "t \<noteq> []" using False by (simp add: t_def)
  have u: "drop (length t - Suc 0) t = [last t]"
    using t by (cases t rule: rev_cases) simp_all
  have n: "take (length t - Suc 0) t = butlast t"
    by (simp add: butlast_conv_take)
  show ?thesis
  proof (cases "Atoi (butlast t)")
    case None
    then show ?thesis
      using t Atoi_None_iff[of "butlast t"]
      by (simp add: parseSimpleTime_def Let_def u n flip: t_def)
  next
    case (Some v)
    then have "signedDecimal (butlast t)"
      using Atoi_None_iff[of "butlast t"] by simp
    then show ?thesis
      using t Some
      by (auto simp: parseSimpleTime_def Let_def u n ToLower_unit unitBytes_def mult.assoc
          simp flip: t_def)
  qed
qed

text \<open>
  C4, as amended. The parser fails exactly when the trimmed string is empty, or the part
  before its last byte is not a number \<^verbatim>\<open>strconv.Atoi\<close> accepts (an optional sign
  \<^verbatim>\<open>+\<close> or \<^verbatim>\<open>-\<close>, one or more decimal digits, a value that fits \<^verbatim>\<open>int64\<close>), or the
  last byte is none of m, h, d, M, H, D. The empty string, \<^verbatim>\<open>30\<close>, \<^verbatim>\<open>30x\<close> and \<^verbatim>\<open>h\<close>
  fail.
\<close>

theorem parseSimpleTime_fails_iff:
  "(isl (parseSimpleTime s) \<longleftrightarrow>
      TrimSpace s = [] \<or> \<not> signedDecimal (butlast (TrimSpace s))
      \<or> last (TrimSpace s) \<notin> unitBytes)
   \<and> parseSimpleTime '''' = Inl EmptyTimeString
   \<and> parseSimpleTime ''30'' = Inl (UnsupportedTimeUnit ''0'')
   \<and> parseSimpleTime ''30x'' = Inl (UnsupportedTimeUnit ''x'')
   \<and> parseSimpleTime ''h'' = Inl (InvalidNumberFormat '''')"
proof -
  have ev: "TrimSpace '''' = ''''" "TrimSpace ''30'' = ''30''" "TrimSpace ''30x'' = ''30x''"
    "TrimSpace ''h'' = ''h''"
    by (simp_all add: TrimSpace_def spaceRunes_def spaceWidth_def)
  have "isl (parseSimpleTime s) \<longleftrightarrow>
      TrimSpace s = [] \<or> \<not> signedDecimal (butlast (TrimSpace s))
      \<or> last (TrimSpace s) \<notin> unitBytes"
    by (simp add: parseSimpleTime_trimmed Let_def)
  moreover have "parseSimpleTime '''' = Inl EmptyTimeString"
    by (simp add: parseSimpleTime_trimmed ev)
  moreover have "parseSimpleTime ''30'' = Inl (UnsupportedTimeUnit ''0'')"
    by (simp add: parseSimpleTime_trimmed ev signedDecimal_def allDigits_def isDigit_def
        decimal_def unitBytes_def)
  moreover have "parseSimpleTime ''30x'' = Inl (UnsupportedTimeUnit ''x'')"
    by (simp add: parseSimpleTime_trimmed ev signedDecimal_def allDigits_def isDigit_def
        decimal_def unitBytes_def)
  moreover have "parseSimpleTime ''h'' = Inl (InvalidNumberFormat '''')"
    by (simp add: parseSimpleTime_trimmed ev signedDecimal_def)
  ultimately show ?thesis by blast
qed

theorem parseSimpleTime_fails_iff_witness:
  "isl (parseSimpleTime ''30x'') \<and> \<not> isl (parseSimpleTime '' 2H '')"
proof -
  have ev: "TrimSpace ''30x'' = ''30x''" "TrimSpace '' 2H '' = ''2H''"
    by (simp_all add: TrimSpace_def spaceRunes_def spaceWidth_def)
  show ?thesis
    using parseSimpleTime_fails_iff [of "''30x''"] parseSimpleTime_fails_iff [of "'' 2H ''"]
    by (simp add: ev signedDecimal_def allDigits_def isDigit_def decimal_def unitBytes_def)
qed

text \<open>
  C4 as stated fails: the part of \<^verbatim>\<open>-5m\<close> before the unit is not a string of digits,
  yet \<^verbatim>\<open>strconv.Atoi\<close> accepts the sign and the parser returns minus five minutes.
\<close>

theorem parseSimpleTime_sign_counterexample:
  "TrimSpace ''-5m'' = ''-5m'' \<and> \<not> allDigits (butlast ''-5m'')
   \<and> parseSimpleTime ''-5m'' = Inr (- 5 * Minute)"
proof -
  have ev: "TrimSpace ''-5m'' = ''-5m''"
    by (simp add: TrimSpace_def spaceRunes_def spaceWidth_def)
  show ?thesis
    by (simp add: ev parseSimpleTime_def Atoi_def allDigits_def isDigit_def decimal_def
        ToLower_def lowerByte_def)
qed

lemma spaceWidth_zero:
  assumes "\<forall>p \<in> set runes. p \<noteq> [] \<longrightarrow> hd p \<noteq> c"
  shows "spaceWidth runes (c # cs) = 0"
proof -
  have "find (\<lambda>p. p \<noteq> [] \<and> take (length p) (c # cs) = p) runes = None"
    using assms by (induction runes) (auto simp: neq_Nil_conv)
  then show ?thesis by (simp add: spaceWidth_def)
qed

lemma trimLeft_id: "spaceWidth runes s = 0 \<Longrightarrow> trimLeft runes k s = s"
  by (cases k) simp_all

lemma TrimSpace_digits_unit:
  assumes "allDigits ds" and "u \<in> unitBytes"
  shows "TrimSpace (ds @ [u]) = ds @ [u]"
proof -
  obtain d ds' where ds: "ds = d # ds'" and d: "isDigit d"
    using assms(1) by (cases ds) (auto simp: allDigits_def)
  have "\<forall>p \<in> set spaceRunes. p \<noteq> [] \<longrightarrow> hd p \<noteq> d"
    using d by (auto simp: spaceRunes_def isDigit_def)
  then have l: "spaceWidth spaceRunes (ds @ [u]) = 0"
    unfolding ds by (simp add: spaceWidth_zero)
  have "\<forall>p \<in> set (map rev spaceRunes). p \<noteq> [] \<longrightarrow> hd p \<noteq> u"
    using assms(2) by (auto simp: spaceRunes_def unitBytes_def)
  then have r: "spaceWidth (map rev spaceRunes) (rev (ds @ [u])) = 0"
    by (simp add: spaceWidth_zero)
  show ?thesis
    unfolding TrimSpace_def Let_def by (simp only: trimLeft_id[OF l] trimLeft_id[OF r] rev_rev_ident)
qed

lemma Atoi_digits:
  assumes "allDigits ds" and "decimal ds < 2 ^ 63"
  shows "Atoi ds = Some (of_nat (decimal ds))"
proof -
  obtain d ds' where ds: "ds = d # ds'" and d: "isDigit d"
    using assms(1) by (cases ds) (auto simp: allDigits_def)
  have "d \<noteq> CHR ''-''" "d \<noteq> CHR ''+''"
    using d by (auto simp: isDigit_def)
  then show ?thesis
    using assms by (simp add: Atoi_def ds allDigits_def)
qed

lemma unitNanos_pos: "0 < unitNanos u"
  by (simp add: unitNanos_def)

lemma sint_of_nat_small:
  assumes "n < 2 ^ 63"
  shows "sint (of_nat n :: int64) = int n"
proof -
  have "- (2 ^ 63) \<le> int n" "int n < 2 ^ 63"
    using assms by simp_all
  then have "signed_take_bit 63 (int n) = int n"
    by (rule signed_take_bit_int_eq_self)
  then show ?thesis
    using signed_of_nat [where ?'b = 64 and ?'a = int, of n] by simp
qed

text \<open>
  C5, as amended. For a string \<open>ds\<close> of one or more decimal digits that denotes \<open>n\<close> and
  a unit byte \<open>u\<close> among m, h, d, M, H, D, when \<open>n\<close> times the nanoseconds of the unit is
  below \<open>2^63\<close> the parser returns that many nanoseconds: \<open>n\<close> minutes, \<open>n\<close> hours or
  \<open>n\<close> times 24 hours.
\<close>

theorem parseSimpleTime_value:
  assumes "allDigits ds" and "u \<in> unitBytes" and "decimal ds * unitNanos u < 2 ^ 63"
  shows "parseSimpleTime (ds @ [u]) = Inr (of_nat (decimal ds * unitNanos u))
       \<and> sint (of_nat (decimal ds * unitNanos u) :: int64) = int (decimal ds) * int (unitNanos u)"
proof -
  have "decimal ds \<le> decimal ds * unitNanos u"
    using unitNanos_pos[of u] by (cases "unitNanos u") simp_all
  then have small: "decimal ds < 2 ^ 63"
    using assms(3) by (rule le_less_trans)
  have a: "Atoi ds = Some (of_nat (decimal ds))"
    using assms(1) small by (rule Atoi_digits)
  have "parseSimpleTime (ds @ [u]) = Inr (of_nat (decimal ds * unitNanos u))"
    using assms(2) a
    by (auto simp: parseSimpleTime_def TrimSpace_digits_unit[OF assms(1,2)] ToLower_unit
        unitBytes_def unitNanos_def Minute_def Hour_def)
  then show ?thesis
    using sint_of_nat_small[OF assms(3)] by simp
qed

theorem parseSimpleTime_value_witness:
  "parseSimpleTime ''30m'' = Inr (30 * Minute)
   \<and> parseSimpleTime ''2h'' = Inr (2 * Hour)
   \<and> parseSimpleTime ''7d'' = Inr (168 * Hour)
   \<and> parseSimpleTime ''7D'' = Inr (168 * Hour)
   \<and> sint (168 * Hour) = 168 * 3600 * 10 ^ 9"
  using parseSimpleTime_value [of "''30''" "CHR ''m''"] parseSimpleTime_value [of "''2''" "CHR ''h''"]
    parseSimpleTime_value [of "''7''" "CHR ''d''"] parseSimpleTime_value [of "''7''" "CHR ''D''"]
  by (simp add: allDigits_def isDigit_def decimal_def unitBytes_def unitNanos_def Minute_def Hour_def)

text \<open>
  C5 as stated fails for large \<open>n\<close>: 153722868 minutes are more than \<open>2^63 - 1\<close>
  nanoseconds, the product wraps, and the parser returns a negative duration.
\<close>

theorem parseSimpleTime_overflow_counterexample:
  "allDigits ''153722868''
   \<and> parseSimpleTime ''153722868m'' = Inr (- 9223371993709551616)
   \<and> sint (- 9223371993709551616 :: int64) \<noteq> 153722868 * (60 * 10 ^ 9)"
proof -
  have ev: "TrimSpace ''153722868m'' = ''153722868m''"
    by (simp add: TrimSpace_def spaceRunes_def spaceWidth_def)
  show ?thesis
    by (simp add: ev parseSimpleTime_def Atoi_def allDigits_def isDigit_def decimal_def
        ToLower_def lowerByte_def Minute_def)
qed

section \<open>Proofs: the handlers\<close>

lemma dom_addPartition:
  "dom (addPartition f ts pm p) =
     dom pm \<union> (if f \<noteq> [] \<and> Path p \<noteq> f then {} else seriesKeys (Path p))"
  by (auto simp: addPartition_def Let_def seriesKeys_def)

lemma dom_foldl_addPartition:
  "dom (foldl (addPartition f ts) pm ps) =
     dom pm \<union> (\<Union>p \<in> set (filter (\<lambda>p. f = [] \<or> Path p = f) ps). seriesKeys (Path p))"
  by (induction ps arbitrary: pm) (auto simp: dom_addPartition)

lemma dom_foldl_addSnapshot:
  "dom (foldl (addSnapshot f) pm ms) = dom pm \<union> (\<Union>p \<in> set (matching f ms). seriesKeys (Path p))"
  by (induction ms arbitrary: pm) (auto simp: addSnapshot_def Let_def dom_foldl_addPartition matching_def)

lemma dom_project:
  "dom (project f ms) = (\<Union>p \<in> set (matching f ms). seriesKeys (Path p))"
  by (simp add: project_def dom_foldl_addSnapshot)

lemma addPartition_skip:
  "f \<noteq> [] \<Longrightarrow> Path p \<noteq> f \<Longrightarrow> addPartition f ts pm p = pm"
  by (simp add: addPartition_def)

lemma addPartition_match:
  assumes "Path p = f" and "usedFirst f pm"
  shows "seriesOf f (addPartition f ts pm p) =
           (lookupSlice pm (f @ '' - Used'') @ [(float64 (Used p), ts)],
            lookupSlice pm (f @ '' - Free'') @ [(float64 (Free p), ts)],
            lookupSlice pm (f @ '' - Usage %'') @ [(UsagePercent p, ts)])
         \<and> usedFirst f (addPartition f ts pm p)"
  using assms
  by (auto simp: addPartition_def Let_def seriesOf_def lookupSlice_def usedFirst_def)

lemma foldl_addPartition_series:
  assumes "f \<noteq> []" and "usedFirst f pm"
  shows "seriesOf f (foldl (addPartition f ts) pm ps) =
           (lookupSlice pm (f @ '' - Used'') @ map (\<lambda>p. (float64 (Used p), ts)) (filter (\<lambda>p. Path p = f) ps),
            lookupSlice pm (f @ '' - Free'') @ map (\<lambda>p. (float64 (Free p), ts)) (filter (\<lambda>p. Path p = f) ps),
            lookupSlice pm (f @ '' - Usage %'') @ map (\<lambda>p. (UsagePercent p, ts)) (filter (\<lambda>p. Path p = f) ps))
         \<and> usedFirst f (foldl (addPartition f ts) pm ps)"
  using assms(2)
proof (induction ps arbitrary: pm)
  case Nil
  then show ?case by (simp add: seriesOf_def)
next
  case (Cons p ps)
  show ?case
  proof (cases "Path p = f")
    case True
    note am = addPartition_match[OF True Cons.prems, of ts]
    have u: "usedFirst f (addPartition f ts pm p)" using am by simp
    have s: "lookupSlice (addPartition f ts pm p) (f @ '' - Used'') = lookupSlice pm (f @ '' - Used'') @ [(float64 (Used p), ts)]"
      "lookupSlice (addPartition f ts pm p) (f @ '' - Free'') = lookupSlice pm (f @ '' - Free'') @ [(float64 (Free p), ts)]"
      "lookupSlice (addPartition f ts pm p) (f @ '' - Usage %'') = lookupSlice pm (f @ '' - Usage %'') @ [(UsagePercent p, ts)]"
      using am by (simp_all add: seriesOf_def)
    show ?thesis
      using Cons.IH[OF u] True by (simp add: s)
  next
    case False
    then show ?thesis
      using Cons.IH[OF Cons.prems] assms(1) by (simp add: addPartition_skip)
  qed
qed

lemma foldl_addSnapshot_series:
  assumes "f \<noteq> []" and "usedFirst f pm"
  shows "seriesOf f (foldl (addSnapshot f) pm ms) =
           (lookupSlice pm (f @ '' - Used'') @ pointsOf (\<lambda>p. float64 (Used p)) f ms,
            lookupSlice pm (f @ '' - Free'') @ pointsOf (\<lambda>p. float64 (Free p)) f ms,
            lookupSlice pm (f @ '' - Usage %'') @ pointsOf UsagePercent f ms)"
  using assms(2)
proof (induction ms arbitrary: pm)
  case Nil
  then show ?case by (simp add: seriesOf_def pointsOf_def)
next
  case (Cons m ms)
  let ?ts = "real_of_int (sint (Timestamp m * 1000))"
  note fp = foldl_addPartition_series[OF assms(1) Cons.prems, of ?ts "Partitions m"]
  have u: "usedFirst f (addSnapshot f pm m)"
    using fp by (simp add: addSnapshot_def)
  have s: "seriesOf f (addSnapshot f pm m) =
           (lookupSlice pm (f @ '' - Used'') @ map (\<lambda>p. (float64 (Used p), ?ts)) (filter (\<lambda>p. Path p = f) (Partitions m)),
            lookupSlice pm (f @ '' - Free'') @ map (\<lambda>p. (float64 (Free p), ?ts)) (filter (\<lambda>p. Path p = f) (Partitions m)),
            lookupSlice pm (f @ '' - Usage %'') @ map (\<lambda>p. (UsagePercent p, ?ts)) (filter (\<lambda>p. Path p = f) (Partitions m)))"
    using fp by (simp add: addSnapshot_def)
  show ?case
    using Cons.IH[OF u] s by (simp add: seriesOf_def pointsOf_def)
qed

lemma project_series:
  assumes "f \<noteq> []"
  shows "seriesOf f (project f ms) =
           (pointsOf (\<lambda>p. float64 (Used p)) f ms, pointsOf (\<lambda>p. float64 (Free p)) f ms,
            pointsOf UsagePercent f ms)"
  using foldl_addSnapshot_series[OF assms, of Map.empty ms]
  by (simp add: project_def usedFirst_def lookupSlice_def)

lemma dom_project_filter:
  assumes "f \<noteq> []"
  shows "dom (project f ms) = (if matching f ms = [] then {} else seriesKeys f)"
proof (cases "matching f ms")
  case Nil
  then show ?thesis by (simp add: dom_project)
next
  case (Cons p ps)
  have m: "Path q = f" if "q \<in> set (matching f ms)" for q
    using that assms by (auto simp: matching_def)
  have "set (matching f ms) \<noteq> {}" using Cons by simp
  then have "(\<Union>p \<in> set (matching f ms). seriesKeys (Path p)) = seriesKeys f"
    using m by auto
  then show ?thesis using Cons by (simp add: dom_project)
qed

text \<open>
  C6. For a non-empty path filter the map built by the grouping loop has the three keys
  of the filter when some partition reading has exactly that path, and no key
  otherwise; its three series hold the points of the readings with that path, in the
  order of ingestion. An empty range gives the empty map, and the handler answers with
  a JSON body (not an error) whose targets are among the three keys and which is empty
  when no stored reading has the path.
\<close>

theorem project_path_filter_exact:
  assumes "pathFilter \<noteq> []"
  shows "dom (project pathFilter ms) =
           (if matching pathFilter ms = [] then {} else seriesKeys pathFilter)
       \<and> seriesOf pathFilter (project pathFilter ms) =
           (pointsOf (\<lambda>p. float64 (Used p)) pathFilter ms,
            pointsOf (\<lambda>p. float64 (Free p)) pathFilter ms,
            pointsOf UsagePercent pathFilter ms)
       \<and> project pathFilter [] = Map.empty
       \<and> (ParseInt (Get query ''from'') \<noteq> None \<and> ParseInt (Get query ''to'') \<noteq> None
            \<and> Get query ''path'' = pathFilter \<longrightarrow>
          (\<exists>response. grafanaHandler sortSlice g query = Json response
             \<and> dom response \<subseteq> seriesKeys pathFilter
             \<and> (matching pathFilter (data (store g)) = [] \<longrightarrow> response = Map.empty)))"
proof -
  have d: "dom (project pathFilter xs) =
           (if matching pathFilter xs = [] then {} else seriesKeys pathFilter)" for xs
    using assms by (rule dom_project_filter)
  have sub: "matching pathFilter (getRange s a b) = []" if "matching pathFilter (data s) = []" for s a b
    using that by (auto simp: matching_def getRange_def filter_empty_conv)
  have "\<exists>response. grafanaHandler sortSlice g query = Json response
             \<and> dom response \<subseteq> seriesKeys pathFilter
             \<and> (matching pathFilter (data (store g)) = [] \<longrightarrow> response = Map.empty)"
    if q: "ParseInt (Get query ''from'') \<noteq> None" "ParseInt (Get query ''to'') \<noteq> None"
      "Get query ''path'' = pathFilter"
  proof -
    obtain fromMs toMs where p: "ParseInt (Get query ''from'') = Some fromMs"
      "ParseInt (Get query ''to'') = Some toMs"
      using q by auto
    let ?ms = "getRange (store g) (Unix (goDiv fromMs 1000)) (Unix (goDiv toMs 1000))"
    let ?r = "\<lambda>target. map_option (sortDatapoints sortSlice) (project pathFilter ?ms target)"
    have h: "grafanaHandler sortSlice g query = Json ?r"
      using p q(3) by (simp add: grafanaHandler_def Let_def)
    have dr: "dom ?r = dom (project pathFilter ?ms)"
      by (auto simp: dom_def)
    have "dom ?r \<subseteq> seriesKeys pathFilter"
      unfolding dr d by simp
    moreover have "?r = Map.empty" if e: "matching pathFilter (data (store g)) = []"
    proof -
      have "dom ?r = {}" unfolding dr d using sub[OF e] by simp
      then show ?thesis by (metis dom_eq_empty_conv)
    qed
    ultimately show ?thesis using h by blast
  qed
  then show ?thesis using d project_series[OF assms] by (simp add: project_def)
qed

lemma ParseInt_examples:
  "ParseInt ''0'' = Some 0" "ParseInt ''10000'' = Some 10000"
  by (simp_all add: ParseInt_def Atoi_def isDigit_def decimal_def)

theorem project_path_filter_exact_witness:
  "dom (project ''/'' [reading 2 ''/'' 20, reading 2 ''/data'' 7, reading 3 ''/'' 30]) = seriesKeys ''/''
   \<and> lookupSlice (project ''/'' [reading 2 ''/'' 20, reading 2 ''/data'' 7, reading 3 ''/'' 30])
         ''/ - Used'' = [(20, 2000), (30, 3000)]
   \<and> dom (project ''/var'' [reading 2 ''/'' 20, reading 2 ''/data'' 7, reading 3 ''/'' 30]) = {}
   \<and> (\<exists>response.
         grafanaHandler insertionSort (holding [reading 2 ''/'' 20, reading 2 ''/data'' 7])
           [''path'' \<mapsto> ''/var'', ''from'' \<mapsto> ''0'', ''to'' \<mapsto> ''10000''] = Json response
         \<and> response = Map.empty)"
  using project_path_filter_exact [of "''/''" "[reading 2 ''/'' 20, reading 2 ''/data'' 7, reading 3 ''/'' 30]"]
    project_path_filter_exact [of "''/var''" "[reading 2 ''/'' 20, reading 2 ''/data'' 7, reading 3 ''/'' 30]"]
    project_path_filter_exact [of "''/var''" _ "[''path'' \<mapsto> ''/var'', ''from'' \<mapsto> ''0'', ''to'' \<mapsto> ''10000'']"
      insertionSort "holding [reading 2 ''/'' 20, reading 2 ''/data'' 7]"]
  by (simp add: matching_def reading_def seriesOf_def pointsOf_def float64_def Get_def
      ParseInt_examples holding_def initGlobals_def)













lemma sint_word_of_int_small:
  assumes "- (2 ^ 63) \<le> x" and "x < 2 ^ 63"
  shows "sint (word_of_int x :: int64) = x"
  using assms by (simp add: sint_sbintrunc' signed_take_bit_int_eq_self)

lemma sint_bounds64: "- (2 ^ 63) \<le> sint (a :: int64)" "sint (a :: int64) < 2 ^ 63"
  using sint_ge[of a] sint_lt[of a] by simp_all

lemma sdiv_million:
  "(x :: int) sdiv 1000000 = (if 0 \<le> x then x div 1000000 else - ((- x) div 1000000))"
  by (simp add: signed_divide_int_def sgn_if)

lemma sint_goDiv_Millisecond: "sint (goDiv a Millisecond) = sint a sdiv 1000000"
proof -
  have "- (2 ^ 63) \<le> sint a sdiv 1000000" "sint a sdiv 1000000 < 2 ^ 63"
    using sint_bounds64[of a] by (auto simp: sdiv_million)
  then show ?thesis
    by (simp add: goDiv_def Millisecond_def sint_word_of_int_small)
qed

lemma sint_minus_small:
  assumes "- (2 ^ 63) \<le> sint a - sint b" and "sint a - sint b < 2 ^ 63"
  shows "sint (a - b :: int64) = sint a - sint b"
  using assms by (simp add: sint_word_ariths signed_take_bit_int_eq_self)

text \<open>
  C8, as amended. When the expression parses to \<open>d\<close>, the response is the redirect with
  status 307 that carries the path, \<open>to\<close> = the clock reading in milliseconds and
  \<open>from\<close> = the reading minus \<open>d\<close> in milliseconds, both divisions truncating towards
  zero. When the reading and the reading minus \<open>d\<close> are not before the Unix epoch and
  \<open>d\<close> is a whole number of milliseconds, \<open>to - from\<close> is \<open>d\<close> in milliseconds. When
  the expression does not parse, the response is the error 400 and no redirect.
\<close>

theorem grafanaSimpleHandler_redirect:
  "(parseSimpleTime (Get query ''time'') = Inr d \<longrightarrow>
      grafanaSimpleHandler now query =
        Redirect 307 (Get query ''path'') (goDiv (now - d) Millisecond) (goDiv now Millisecond)
      \<and> sint (goDiv now Millisecond) = sint now sdiv 1000000
      \<and> (- (2 ^ 63) \<le> sint now - sint d \<and> sint now - sint d < 2 ^ 63 \<longrightarrow>
           sint (goDiv (now - d) Millisecond) = (sint now - sint d) sdiv 1000000)
      \<and> (0 \<le> sint now \<and> 0 \<le> sint now - sint d \<and> sint now - sint d < 2 ^ 63
            \<and> 1000000 dvd sint d \<longrightarrow>
           sint (goDiv now Millisecond) - sint (goDiv (now - d) Millisecond)
             = sint d div 1000000))
   \<and> (parseSimpleTime (Get query ''time'') = Inl e \<longrightarrow>
        grafanaSimpleHandler now query = HttpError 400 (''Invalid time format: '' @ errorText e))"
proof -
  have r: "sint (goDiv (now - d) Millisecond) = (sint now - sint d) sdiv 1000000"
    if "- (2 ^ 63) \<le> sint now - sint d" "sint now - sint d < 2 ^ 63"
    using that by (simp add: sint_goDiv_Millisecond sint_minus_small)
  have "sint (goDiv now Millisecond) - sint (goDiv (now - d) Millisecond) = sint d div 1000000"
    if h: "0 \<le> sint now" "0 \<le> sint now - sint d" "sint now - sint d < 2 ^ 63"
      "1000000 dvd sint d"
  proof -
    obtain k where k: "sint d = 1000000 * k" using h(4) by (auto simp: dvd_def)
    have "sint (goDiv (now - d) Millisecond) = (sint now - sint d) div 1000000"
      using r h by (simp add: sdiv_million)
    moreover have "sint (goDiv now Millisecond) = sint now div 1000000"
      using h by (simp add: sint_goDiv_Millisecond sdiv_million)
    moreover have "(sint now + (- k) * 1000000) div 1000000 = - k + sint now div 1000000"
      by (rule div_mult_self1) simp
    then have "(sint now - 1000000 * k) div 1000000 = sint now div 1000000 - k"
      by (simp add: algebra_simps)
    ultimately show ?thesis by (simp only: k nonzero_mult_div_cancel_left)
  qed
  then show ?thesis
    using r by (auto simp: grafanaSimpleHandler_def Let_def sint_goDiv_Millisecond)
qed

lemma parse_one_hour: "parseSimpleTime ''1h'' = Inr 3600000000000"
proof -
  have ev: "TrimSpace ''1h'' = ''1h''"
    by (simp add: TrimSpace_def spaceRunes_def spaceWidth_def)
  show ?thesis
    by (simp add: ev parseSimpleTime_def Atoi_def isDigit_def decimal_def
        ToLower_def lowerByte_def Hour_def Minute_def)
qed

theorem grafanaSimpleHandler_redirect_witness:
  "grafanaSimpleHandler 1700000000123456789 [''time'' \<mapsto> ''1h'', ''path'' \<mapsto> ''/'']
     = Redirect 307 ''/'' 1699996400123 1700000000123
   \<and> sint (1700000000123 :: int64) - sint (1699996400123 :: int64) = 3600000
   \<and> grafanaSimpleHandler 1700000000123456789 [''time'' \<mapsto> ''30x'']
     = HttpError 400 ''Invalid time format: unsupported time unit: x''"
proof -
  have ev: "TrimSpace ''30x'' = ''30x''"
    by (simp add: TrimSpace_def spaceRunes_def spaceWidth_def)
  have bad: "parseSimpleTime ''30x'' = Inl (UnsupportedTimeUnit ''x'')"
    by (simp add: ev parseSimpleTime_def Atoi_def isDigit_def decimal_def
        ToLower_def lowerByte_def)
  show ?thesis
    using grafanaSimpleHandler_redirect [of "[''time'' \<mapsto> ''1h'', ''path'' \<mapsto> ''/'']"
        3600000000000 1700000000123456789]
      grafanaSimpleHandler_redirect [of "[''time'' \<mapsto> ''30x'']" _ 1700000000123456789
        "UnsupportedTimeUnit ''x''"]
    by (simp add: Get_def parse_one_hour bad errorText_def goDiv_def Millisecond_def
        signed_divide_int_def)
qed

text \<open>
  C8 as stated fails for a clock in the first hour after the epoch: at half a millisecond
  after it, \<^verbatim>\<open>time=1h\<close> gives \<open>to = 0\<close> and \<open>from = -3599999\<close>, since both divisions
  truncate towards zero.
\<close>

theorem grafanaSimpleHandler_epoch_counterexample:
  "grafanaSimpleHandler 500000 [''time'' \<mapsto> ''1h''] = Redirect 307 [] (- 3599999) 0
   \<and> sint (0 :: int64) - sint (- 3599999 :: int64) \<noteq> 3600000"
  by (simp add: grafanaSimpleHandler_def Get_def parse_one_hour goDiv_def Millisecond_def
      signed_divide_int_def)

section \<open>Proofs: the live-snapshot endpoint\<close>






end
